theory Spec2Isabelle
  imports Complex_Main "HOL-Library.Multiset"
begin

section \<open>Data model\<close>

text \<open>
  City objects, as the record store and the prediction service deliver them and as
  the routes send them out. The two join fields \<open>name\<close> and \<open>country\<close> are text;
  a field that is absent, \<open>undefined\<close> or \<open>null\<close> is \<open>None\<close> (the source reads
  them through \<open>?.\<close>). \<open>predicted_score\<close>, \<open>ml_enhanced\<close> and \<open>is_saved\<close>
  are the three properties the routes add; \<open>None\<close> is "no such property". Every other
  column (slug, costs, ratings, ...) travels in the record's extension part, so a spread
  \<open>{...city, f: v}\<close> is the record update \<open>city\<lparr>f := v\<rparr>\<close>. Scores are only copied
  and compared, and are modelled as real numbers.
\<close>

record city =
  city_id :: "string option"
  name :: "string option"
  country :: "string option"
  predicted_score :: "real option"
  ml_enhanced :: "bool option"
  is_saved :: "bool option"

text \<open>
  An argument that ought to be an array: an array, a falsy value (\<open>undefined\<close>,
  \<open>null\<close>, ...) or some other truthy value that is not an array.
\<close>

datatype 'a arr_arg = Arr "'a list" | Falsy | Truthy

section \<open>The merge of record-store rows with predictions (python.service.js)\<close>

text \<open>\<open>String.prototype.toLowerCase\<close> on ASCII text.\<close>

definition toLowerChar :: "char \<Rightarrow> char" where
  "toLowerChar c =
     (case map_of (zip ''ABCDEFGHIJKLMNOPQRSTUVWXYZ'' ''abcdefghijklmnopqrstuvwxyz'') c of
        Some d \<Rightarrow> d
      | None \<Rightarrow> c)"

definition toLowerCase :: "string \<Rightarrow> string" where
  "toLowerCase s = map toLowerChar s"

text \<open>
  \<open>x?.toLowerCase()\<close> inside a template literal: an absent field prints as
  \<open>undefined\<close>.
\<close>

definition lowerField :: "string option \<Rightarrow> string" where
  "lowerField x = (case x of None \<Rightarrow> ''undefined'' | Some s \<Rightarrow> toLowerCase s)"

text \<open>The key \<open>`${c.name?.toLowerCase()}_${c.country?.toLowerCase()}`\<close>.\<close>

definition mergeKey :: "'a city_scheme \<Rightarrow> string" where
  "mergeKey c = lowerField (name c) @ ''_'' @ lowerField (country c)"

text \<open>
  The \<open>Map\<close> filled by \<open>mlCities.forEach\<close>: a later prediction with the same key
  replaces an earlier one.
\<close>

definition mlMapSet :: "'b city_scheme \<Rightarrow> (string \<rightharpoonup> 'b city_scheme) \<Rightarrow> (string \<rightharpoonup> 'b city_scheme)" where
  "mlMapSet mlCity mlMap = mlMap(mergeKey mlCity \<mapsto> mlCity)"

definition mlMapOf :: "'b city_scheme list \<Rightarrow> (string \<rightharpoonup> 'b city_scheme)" where
  "mlMapOf mlCities = fold mlMapSet mlCities Map.empty"

text \<open>The callback of \<open>dbCities.map\<close>.\<close>

definition mergeOne :: "(string \<rightharpoonup> 'b city_scheme) \<Rightarrow> 'a city_scheme \<Rightarrow> 'a city_scheme" where
  "mergeOne mlMap dbCity =
     (case mlMap (mergeKey dbCity) of
        Some mlCity \<Rightarrow>
          dbCity\<lparr>predicted_score := predicted_score mlCity, ml_enhanced := Some True\<rparr>
      | None \<Rightarrow>
          dbCity\<lparr>predicted_score := Some 0, ml_enhanced := Some False\<rparr>)"

text \<open>
  \<open>mergeCityData\<close>. When one of the two arguments is not an array the function
  returns \<open>dbCities || []\<close>.
\<close>

fun mergeCityData :: "'a city_scheme arr_arg \<Rightarrow> 'b city_scheme arr_arg \<Rightarrow> 'a city_scheme arr_arg" where
  "mergeCityData (Arr dbCities) (Arr mlCities) = Arr (map (mergeOne (mlMapOf mlCities)) dbCities)"
| "mergeCityData Falsy _ = Arr []"
| "mergeCityData dbCities _ = dbCities"


section \<open>Request values and pagination (utils/helpers.js)\<close>

text \<open>
  A query parameter or an argument of \<open>paginateResults\<close>: missing, \<open>null\<close>, a
  number or a string. Numbers are integers of the range that JavaScript represents
  exactly, and are modelled as unbounded integers; \<open>NaN\<close> is \<open>None\<close>.
\<close>

datatype qval = QUndefined | QNull | QNum int | QStr string

definition isWhiteSpace :: "char \<Rightarrow> bool" where
  "isWhiteSpace c \<longleftrightarrow>
     c \<in> set [CHR 0x09, CHR 0x0A, CHR 0x0B, CHR 0x0C, CHR 0x0D, CHR '' '']"

definition digitValue :: "char \<Rightarrow> nat option" where
  "digitValue c =
     map_of (zip ''0123456789abcdefABCDEF''
       [0, 1, 2, 3, 4, 5, 6, 7, 8, 9, 10, 11, 12, 13, 14, 15, 10, 11, 12, 13, 14, 15]) c"

definition radixDigit :: "nat \<Rightarrow> char \<Rightarrow> bool" where
  "radixDigit R c = (case digitValue c of None \<Rightarrow> False | Some d \<Rightarrow> d < R)"

definition digitsToNat :: "nat \<Rightarrow> string \<Rightarrow> nat" where
  "digitsToNat R Z =
     foldl (\<lambda>acc c. acc * R + (case digitValue c of None \<Rightarrow> 0 | Some d \<Rightarrow> d)) 0 Z"

text \<open>
  \<open>parseInt\<close> of a string with no radix given: leading white space, a sign, a
  \<open>0x\<close> prefix, then the longest run of digits; \<open>NaN\<close> when that run is empty.
\<close>

definition parseIntString :: "string \<Rightarrow> int option" where
  "parseIntString inputString =
     (let S = dropWhile isWhiteSpace inputString;
          sign = (case S of [] \<Rightarrow> (1::int) | c # _ \<Rightarrow> if c = CHR ''-'' then - 1 else 1);
          S1 = (case S of [] \<Rightarrow> S | c # r \<Rightarrow> if c = CHR ''-'' \<or> c = CHR ''+'' then r else S);
          hex = (case S1 of a # b # _ \<Rightarrow> a = CHR ''0'' \<and> (b = CHR ''x'' \<or> b = CHR ''X'') | _ \<Rightarrow> False);
          R = (if hex then 16 else 10);
          S2 = (if hex then drop 2 S1 else S1);
          Z = takeWhile (radixDigit R) S2
      in if Z = [] then None else Some (sign * int (digitsToNat R Z)))"

fun parseInt :: "qval \<Rightarrow> int option" where
  "parseInt QUndefined = None"
| "parseInt QNull = None"
| "parseInt (QNum n) = Some n"
| "parseInt (QStr s) = parseIntString s"

text \<open>\<open>x || d\<close> for a number \<open>x\<close>: \<open>NaN\<close> and \<open>0\<close> are falsy.\<close>

definition orElse :: "int option \<Rightarrow> int \<Rightarrow> int" where
  "orElse x d = (case x of None \<Rightarrow> d | Some n \<Rightarrow> if n = 0 then d else n)"

text \<open>A default parameter value replaces \<open>undefined\<close> only.\<close>

definition defaultTo :: "qval \<Rightarrow> qval \<Rightarrow> qval" where
  "defaultTo d v = (if v = QUndefined then d else v)"

text \<open>
  \<open>paginateResults (page = 1, limit = 10)\<close>: \<open>pageNum\<close>, \<open>limitNum\<close> and the
  window \<open>{offset, limit: limitNum}\<close>.
\<close>

definition pageNumOf :: "qval \<Rightarrow> int" where
  "pageNumOf page = orElse (parseInt (defaultTo (QNum 1) page)) 1"

definition limitNumOf :: "qval \<Rightarrow> int" where
  "limitNumOf limit = orElse (parseInt (defaultTo (QNum 10) limit)) 10"

record page_window =
  w_offset :: "int option"
  w_limit :: int

definition paginateResults :: "qval \<Rightarrow> qval \<Rightarrow> page_window" where
  "paginateResults page limit =
     (let pageNum = pageNumOf page;
          limitNum = limitNumOf limit;
          offset = parseInt (QNum ((pageNum - 1) * limitNum))
      in \<lparr>w_offset = offset, w_limit = limitNum\<rparr>)"

section \<open>External collaborators\<close>

text \<open>
  Whatever a handler awaits is a component of its environment: the record store
  (\<open>pool.execute\<close>, \<open>pool.query\<close>), the prediction service behind the axios
  client, and the library calls \<open>parseFloat\<close>, \<open>jwt.verify\<close> and
  \<open>JSON.parse\<close>. A call that rejects or throws returns \<open>Inl\<close>.
\<close>

datatype error = StorageError | UpstreamError | TypeError

datatype sqlparam = PText string | PNumber real | PInt int | PNaN

text \<open>
  The \<open>SELECT ... FROM cities\<close> statement of the listing routes: the text spliced in
  after \<open>FROM cities\<close>, the \<open>ORDER BY\<close> column and direction, and the bound
  parameters, which end with \<open>LIMIT\<close> and \<open>OFFSET\<close>.
\<close>

record select_query =
  sq_where :: string
  sq_order_field :: string
  sq_order_dir :: string
  sq_params :: "sqlparam list"

record ('a, 'u) database =
  count_query :: "string \<Rightarrow> sqlparam list \<Rightarrow> error + int"
  cities_query :: "select_query \<Rightarrow> error + 'a city_scheme list"
  saved_query :: "string \<Rightarrow> string option \<Rightarrow> error + bool"
  prefs_query :: "string \<Rightarrow> error + 'u list"

text \<open>
  The pagination block and the body of the prediction service's answer to
  \<open>POST /cities/personalized\<close>. Their values are JSON values of a type \<open>'v\<close> that
  the backend never inspects; an absent one is \<open>None\<close>.
\<close>

record 'v ml_pagination =
  mp_offset :: "'v option"
  mp_current_page :: "'v option"
  mp_total_pages :: "'v option"
  mp_has_next_page :: "'v option"
  mp_has_prev_page :: "'v option"

record ('a, 'v) personalized_body =
  pb_data :: "'a city_scheme list option"
  pb_total :: "'v option"
  pb_limit :: "'v option"
  pb_pagination :: "'v ml_pagination option"
  pb_user_preferences :: "'v option"

text \<open>
  The prediction service: whether \<open>GET /health\<close> answers, the \<open>data\<close> of
  \<open>GET /cities/top\<close> for a \<open>limit\<close>, and the body of
  \<open>POST /cities/personalized\<close> for the preferences, \<open>limit\<close> and \<open>page\<close>.
\<close>

record ('a, 'u, 'v) python =
  health :: bool
  cities_top :: "int \<Rightarrow> error + 'a city_scheme list option"
  cities_personalized :: "'u \<Rightarrow> int \<Rightarrow> int \<Rightarrow> error + ('a, 'v) personalized_body"

record 'u platform =
  parseFloat :: "string \<Rightarrow> real option"
  jwt_verify :: "string \<Rightarrow> string option option"
  parse_priorities :: "'u \<Rightarrow> 'u"

section \<open>The prediction client (python.service.js)\<close>




record ('a, 'v) personalized_result =
  pr_success :: bool
  pr_data :: "'a city_scheme list option"
  pr_total :: "'v option"
  pr_limit :: "'v option"
  pr_offset :: "'v option"
  pr_current_page :: "'v option"
  pr_total_pages :: "'v option"
  pr_has_next_page :: "'v option"
  pr_has_prev_page :: "'v option"
  pr_userPreferences :: "'v option"

text \<open>\<open>response.data.pagination || {}\<close>.\<close>

definition paginationOrEmpty :: "'v ml_pagination option \<Rightarrow> 'v ml_pagination" where
  "paginationOrEmpty p =
     (case p of
        None \<Rightarrow> \<lparr>mp_offset = None, mp_current_page = None, mp_total_pages = None,
                 mp_has_next_page = None, mp_has_prev_page = None\<rparr>
      | Some b \<Rightarrow> b)"

text \<open>
  \<open>getPersonalizedCities\<close>. The preferences are a row of the \<open>users\<close> table, an
  object, so the guard on their type never fires.
\<close>

definition getPersonalizedCities ::
    "('a, 'u, 'v) python \<Rightarrow> 'u \<Rightarrow> int \<Rightarrow> int \<Rightarrow> error + ('a, 'v) personalized_result" where
  "getPersonalizedCities py userPreferences limit page =
     (let validatedLimit = min limit 200;
          validatedPage = max page 1
      in case cities_personalized py userPreferences validatedLimit validatedPage of
           Inl e \<Rightarrow> Inl e
         | Inr body \<Rightarrow>
             (let pagination = paginationOrEmpty (pb_pagination body)
              in Inr \<lparr>pr_success = True,
                      pr_data = pb_data body,
                      pr_total = pb_total body,
                      pr_limit = pb_limit body,
                      pr_offset = mp_offset pagination,
                      pr_current_page = mp_current_page pagination,
                      pr_total_pages = mp_total_pages pagination,
                      pr_has_next_page = mp_has_next_page pagination,
                      pr_has_prev_page = mp_has_prev_page pagination,
                      pr_userPreferences = pb_user_preferences body\<rparr>))"

section \<open>The city routes\<close>

text \<open>
  The query string of a listing request and the user that \<open>optionalAuth\<close> attached
  to it. A parameter that is missing is \<open>None\<close> (or \<open>QUndefined\<close>).
\<close>

record request =
  q_page :: qval
  q_limit :: qval
  q_country :: "string option"
  q_climate :: "string option"
  q_min_cost :: "string option"
  q_max_cost :: "string option"
  q_min_safety :: "string option"
  q_sort_by :: "string option"
  q_sort_order :: "string option"
  q_user :: "string option"

text \<open>
  \<open>successResponse (res, data, message)\<close> answers with status 200,
  \<open>errorResponse (res, message, statusCode)\<close> with the status given.
\<close>

datatype 'd response = Success 'd string | Failure string nat


record ('n, 'b) pagination =
  current_page :: 'n
  total_pages :: 'n
  total_items :: 'n
  items_per_page :: 'n
  has_next_page :: 'b
  has_prev_page :: 'b

record 'a listing =
  cities :: "'a city_scheme list"
  pagination :: "(int, bool) pagination"

record ('a, 'v) personalized_listing =
  p_cities :: "'a city_scheme list"
  p_pagination :: "('v option, 'v option) pagination"
  p_user_preferences :: "'v option"

subsection \<open>Shared pieces\<close>

definition toUpperChar :: "char \<Rightarrow> char" where
  "toUpperChar c =
     (case map_of (zip ''abcdefghijklmnopqrstuvwxyz'' ''ABCDEFGHIJKLMNOPQRSTUVWXYZ'') c of
        Some d \<Rightarrow> d
      | None \<Rightarrow> c)"

definition toUpperCase :: "string \<Rightarrow> string" where
  "toUpperCase s = map toUpperChar s"

definition trim :: "string \<Rightarrow> string" where
  "trim s = rev (dropWhile isWhiteSpace (rev (dropWhile isWhiteSpace s)))"

text \<open>\<open>sanitizeInput\<close> of a string: \<open>input.trim().replace(/[<>]/g, '')\<close>.\<close>

definition sanitizeInput :: "string \<Rightarrow> string" where
  "sanitizeInput input = filter (\<lambda>c. c \<noteq> CHR ''<'' \<and> c \<noteq> CHR ''>'') (trim input)"

text \<open>The truthy value of an optional string parameter, if it has one.\<close>

definition truthy :: "string option \<Rightarrow> string option" where
  "truthy x = (case x of None \<Rightarrow> None | Some s \<Rightarrow> if s = [] then None else Some s)"

text \<open>The destructuring defaults \<open>sort_by = 'name'\<close> and \<open>sort_order = 'ASC'\<close>.\<close>

definition sortByOf :: "request \<Rightarrow> string" where
  "sortByOf req = (case q_sort_by req of None \<Rightarrow> ''name'' | Some s \<Rightarrow> s)"

definition sortOrderOf :: "request \<Rightarrow> string" where
  "sortOrderOf req = (case q_sort_order req of None \<Rightarrow> ''ASC'' | Some s \<Rightarrow> s)"

definition allowedSortFields :: "string list" where
  "allowedSortFields =
     [''name'', ''country'', ''monthly_cost_usd'', ''safety_score'', ''nightlife_rating'',
      ''transport_rating'']"

definition allowedSortOrders :: "string list" where
  "allowedSortOrders = [''ASC'', ''DESC'']"

text \<open>The validated pair \<open>(sortField, sortOrder)\<close>.\<close>

definition validateSort :: "string \<Rightarrow> string \<Rightarrow> string \<times> string" where
  "validateSort sort_by sort_order =
     (let sortField = (if sort_by \<in> set allowedSortFields then sort_by else ''name'');
          sortOrder = (if toUpperCase sort_order \<in> set allowedSortOrders
                       then toUpperCase sort_order else ''ASC'')
      in (sortField, sortOrder))"

text \<open>
  One step of building the \<open>WHERE\<close> clause: a text filter is used when its parameter
  is truthy, a numeric filter when moreover \<open>parseFloat\<close> gives a number. \<open>glue\<close>
  yields the text to append to the clause built so far.
\<close>

definition textFilter ::
    "(string \<Rightarrow> string) \<Rightarrow> string option \<Rightarrow> string \<times> sqlparam list \<Rightarrow> string \<times> sqlparam list" where
  "textFilter glue x w =
     (case truthy x of
        None \<Rightarrow> w
      | Some s \<Rightarrow> (fst w @ glue (fst w), snd w @ [PText (''%'' @ sanitizeInput s @ ''%'')]))"

definition numberFilter ::
    "(string \<Rightarrow> real option) \<Rightarrow> (string \<Rightarrow> string) \<Rightarrow> string option \<Rightarrow>
     string \<times> sqlparam list \<Rightarrow> string \<times> sqlparam list" where
  "numberFilter pf glue x w =
     (case truthy x of
        None \<Rightarrow> w
      | Some s \<Rightarrow>
          (case pf s of
             None \<Rightarrow> w
           | Some v \<Rightarrow> (fst w @ glue (fst w), snd w @ [PNumber v])))"

text \<open>
  The loop that sets \<open>city.is_saved\<close>, one lookup per city; a lookup that fails ends
  the request.
\<close>

fun addSaved :: "(string option \<Rightarrow> error + bool) \<Rightarrow> 'a city_scheme list \<Rightarrow> error + 'a city_scheme list" where
  "addSaved lookup [] = Inr []"
| "addSaved lookup (city # rest) =
     (case lookup (city_id city) of
        Inl e \<Rightarrow> Inl e
      | Inr saved \<Rightarrow>
          (case addSaved lookup rest of
             Inl e \<Rightarrow> Inl e
           | Inr rest' \<Rightarrow> Inr (city\<lparr>is_saved := Some saved\<rparr> # rest')))"





subsection \<open>GET /filter\<close>

definition whereOrAnd :: "string \<Rightarrow> string \<Rightarrow> string" where
  "whereOrAnd cond whereClause =
     (if whereClause = [] then '' WHERE '' @ cond else '' AND '' @ cond)"

definition filterWhere :: "(string \<Rightarrow> real option) \<Rightarrow> request \<Rightarrow> string \<times> sqlparam list" where
  "filterWhere pf req =
     (let w1 = textFilter (\<lambda>_. '' WHERE country LIKE ?'') (q_country req) ([], []);
          w2 = textFilter (whereOrAnd ''climate_summary LIKE ?'') (q_climate req) w1;
          w3 = numberFilter pf (whereOrAnd ''monthly_cost_usd >= ?'') (q_min_cost req) w2;
          w4 = numberFilter pf (whereOrAnd ''monthly_cost_usd <= ?'') (q_max_cost req) w3;
          w5 = numberFilter pf (whereOrAnd ''safety_score >= ?'') (q_min_safety req) w4
      in if fst w5 = [] then ('' WHERE 1=1'', snd w5) else w5)"

definition filterPageNum :: "request \<Rightarrow> int" where
  "filterPageNum req = orElse (parseInt (defaultTo (QNum 1) (q_page req))) 1"

definition filterLimitNum :: "request \<Rightarrow> int" where
  "filterLimitNum req = orElse (parseInt (defaultTo (QNum 20) (q_limit req))) 20"




subsection \<open>GET / : the listing that merges predictions into the rows\<close>

definition listPageNum :: "request \<Rightarrow> int" where
  "listPageNum req = max 1 (orElse (parseInt (defaultTo (QNum 1) (q_page req))) 1)"

definition listLimitNum :: "request \<Rightarrow> int" where
  "listLimitNum req = max 1 (min 100 (orElse (parseInt (defaultTo (QNum 20) (q_limit req))) 20))"

definition listWindow :: "request \<Rightarrow> page_window" where
  "listWindow req = paginateResults (QNum (listPageNum req)) (QNum (listLimitNum req))"

definition listWhere :: "(string \<Rightarrow> real option) \<Rightarrow> request \<Rightarrow> string \<times> sqlparam list" where
  "listWhere pf req =
     (let w1 = textFilter (\<lambda>_. '' AND country LIKE ?'') (q_country req) (''WHERE 1=1'', []);
          w2 = textFilter (\<lambda>_. '' AND climate_summary LIKE ?'') (q_climate req) w1;
          w3 = numberFilter pf (\<lambda>_. '' AND monthly_cost_usd >= ?'') (q_min_cost req) w2;
          w4 = numberFilter pf (\<lambda>_. '' AND monthly_cost_usd <= ?'') (q_max_cost req) w3
      in numberFilter pf (\<lambda>_. '' AND safety_score >= ?'') (q_min_safety req) w4)"

text \<open>
  The \<open>SELECT\<close> of the route for the window \<open>finalLimit\<close>, \<open>finalOffset\<close>: with
  no filter parameter the statement is the one with \<open>ORDER BY name ASC\<close> written
  out, otherwise the one with the validated sort spliced in.
\<close>

definition listSelect :: "(string \<Rightarrow> real option) \<Rightarrow> request \<Rightarrow> int \<Rightarrow> int \<Rightarrow> select_query" where
  "listSelect pf req finalLimit finalOffset =
     (let w = listWhere pf req;
          sorting = validateSort (sortByOf req) (sortOrderOf req)
      in if snd w = []
         then \<lparr>sq_where = [], sq_order_field = ''name'', sq_order_dir = ''ASC'',
               sq_params = [PInt finalLimit, PInt finalOffset]\<rparr>
         else \<lparr>sq_where = fst w, sq_order_field = fst sorting, sq_order_dir = snd sorting,
               sq_params = snd w @ [PInt finalLimit, PInt finalOffset]\<rparr>)"


text \<open>\<open>c.predicted_score || 0\<close>.\<close>

definition scoreOrZero :: "'a city_scheme \<Rightarrow> real" where
  "scoreOrZero c = (case predicted_score c of None \<Rightarrow> 0 | Some x \<Rightarrow> x)"






subsection \<open>GET /personalized\<close>

record personalized_request =
  authorization :: "string option"
  pq_limit :: qval
  pq_page :: qval

fun splitOn :: "char \<Rightarrow> string \<Rightarrow> string list" where
  "splitOn sep [] = [[]]"
| "splitOn sep (c # cs) =
     (if c = sep then [] # splitOn sep cs
      else (case splitOn sep cs of
              [] \<Rightarrow> [[c]]
            | part # parts \<Rightarrow> (c # part) # parts))"

text \<open>\<open>req.headers.authorization?.split(' ')[1]\<close>, when it is truthy.\<close>

definition bearerToken :: "personalized_request \<Rightarrow> string option" where
  "bearerToken req =
     (case authorization req of
        None \<Rightarrow> None
      | Some header \<Rightarrow>
          (case splitOn CHR '' '' header of
             _ # token # _ \<Rightarrow> truthy (Some token)
           | _ \<Rightarrow> None))"

definition personalizedLimitNum :: "personalized_request \<Rightarrow> int" where
  "personalizedLimitNum req = min (orElse (parseInt (defaultTo (QNum 20) (pq_limit req))) 20) 200"

definition personalizedPageNum :: "personalized_request \<Rightarrow> int" where
  "personalizedPageNum req = max (orElse (parseInt (defaultTo (QNum 1) (pq_page req))) 1) 1"

definition personalizedCities ::
    "'u platform \<Rightarrow> ('a, 'u) database \<Rightarrow> ('a, 'u, 'v) python \<Rightarrow> personalized_request \<Rightarrow>
     ('a, 'v) personalized_listing response" where
  "personalizedCities pf db py req =
     (case bearerToken req of
        None \<Rightarrow> Failure ''Authentication required'' 401
      | Some token \<Rightarrow>
          (case jwt_verify pf token of
             None \<Rightarrow> Failure ''Invalid token'' 401
           | Some userId \<Rightarrow>
               (case truthy userId of
                  None \<Rightarrow> Failure ''Invalid user token'' 401
                | Some userIdStr \<Rightarrow>
                    (case prefs_query db userIdStr of
                       Inl e \<Rightarrow> Failure ''Failed to retrieve personalized cities'' 500
                     | Inr [] \<Rightarrow> Failure ''User not found'' 404
                     | Inr (row # _) \<Rightarrow>
                         (case getPersonalizedCities py (parse_priorities pf row)
                                 (personalizedLimitNum req) (personalizedPageNum req) of
                            Inl e \<Rightarrow> Failure ''Failed to retrieve personalized cities'' 500
                          | Inr mlResult \<Rightarrow>
                              if pr_success mlResult
                              then (case pr_data mlResult of
                                      None \<Rightarrow> Failure ''Failed to retrieve personalized cities'' 500
                                    | Some mlCities \<Rightarrow>
                                        (case addSaved (saved_query db userIdStr) mlCities of
                                           Inl e \<Rightarrow> Failure ''Failed to retrieve personalized cities'' 500
                                         | Inr cs \<Rightarrow>
                                             Success
                                               \<lparr>p_cities = cs,
                                                p_pagination =
                                                  \<lparr>current_page = pr_current_page mlResult,
                                                   total_pages = pr_total_pages mlResult,
                                                   total_items = pr_total mlResult,
                                                   items_per_page = pr_limit mlResult,
                                                   has_next_page = pr_has_next_page mlResult,
                                                   has_prev_page = pr_has_prev_page mlResult\<rparr>,
                                                p_user_preferences = pr_userPreferences mlResult\<rparr>
                                               ''Personalized city recommendations retrieved successfully''))
                              else Failure ''Failed to get personalized recommendations'' 500)))))"

section \<open>Example data\<close>

text \<open>Two rows of the record store and a prediction, as in the integration test.\<close>

definition lisbon :: city where
  "lisbon = \<lparr>city_id = Some ''2'', name = Some ''Lisbon'', country = Some ''Portugal'',
     predicted_score = None, ml_enhanced = None, is_saved = None\<rparr>"

definition bangkok :: city where
  "bangkok = \<lparr>city_id = Some ''1'', name = Some ''Bangkok'', country = Some ''Thailand'',
     predicted_score = None, ml_enhanced = None, is_saved = None\<rparr>"

definition prediction :: "string \<Rightarrow> string \<Rightarrow> real \<Rightarrow> city" where
  "prediction n c s = \<lparr>city_id = None, name = Some n, country = Some c,
     predicted_score = Some s, ml_enhanced = None, is_saved = None\<rparr>"

text \<open>
  An environment for the routes: a record store with 45 cities that returns the two rows
  in the order asked for, a prediction service that knows Lisbon only, one that is down,
  and one whose health check answers while every other call fails.
\<close>

datatype json = JNumber int | JBoolean bool

definition demoPlatform :: "unit platform" where
  "demoPlatform =
     \<lparr>parseFloat = (\<lambda>s. None),
      jwt_verify = (\<lambda>token. if token = ''t0k3n'' then Some (Some ''u1'') else None),
      parse_priorities = (\<lambda>row. row)\<rparr>"

definition demoRows :: "select_query \<Rightarrow> city list" where
  "demoRows q =
     (if sq_order_field q = ''name'' \<and> sq_order_dir q = ''DESC''
      then [lisbon, bangkok] else [bangkok, lisbon])"

definition demoDb :: "(unit, unit) database" where
  "demoDb =
     \<lparr>count_query = (\<lambda>whereClause params. Inr 45),
      cities_query = (\<lambda>q. Inr (demoRows q)),
      saved_query = (\<lambda>user cid. Inr (cid = Some ''2'')),
      prefs_query = (\<lambda>user. Inr [()])\<rparr>"

definition demoBody :: "(unit, json) personalized_body" where
  "demoBody =
     \<lparr>pb_data = Some [lisbon\<lparr>predicted_score := Some 0.72\<rparr>],
      pb_total = Some (JNumber 81),
      pb_limit = Some (JNumber 20),
      pb_pagination =
        Some \<lparr>mp_offset = Some (JNumber 20), mp_current_page = Some (JNumber 2),
              mp_total_pages = Some (JNumber 5), mp_has_next_page = Some (JBoolean True),
              mp_has_prev_page = Some (JBoolean True)\<rparr>,
      pb_user_preferences = None\<rparr>"

definition demoPython :: "(unit, unit, json) python" where
  "demoPython =
     \<lparr>health = True,
      cities_top = (\<lambda>limit. Inr (Some [prediction ''lisbon'' ''PORTUGAL'' 0.72])),
      cities_personalized = (\<lambda>prefs limit page. Inr demoBody)\<rparr>"

definition downPython :: "(unit, unit, json) python" where
  "downPython =
     \<lparr>health = False,
      cities_top = (\<lambda>limit. Inl UpstreamError),
      cities_personalized = (\<lambda>prefs limit page. Inl UpstreamError)\<rparr>"

definition timeoutPython :: "(unit, unit, json) python" where
  "timeoutPython = downPython\<lparr>health := True\<rparr>"

definition demoRequest :: request where
  "demoRequest =
     \<lparr>q_page = QStr ''2'', q_limit = QStr ''20'', q_country = None, q_climate = None,
      q_min_cost = None, q_max_cost = None, q_min_safety = None, q_sort_by = None,
      q_sort_order = None, q_user = None\<rparr>"

definition demoPersonalized :: personalized_request where
  "demoPersonalized =
     \<lparr>authorization = Some ''Bearer t0k3n'', pq_limit = QStr ''20'', pq_page = QStr ''2''\<rparr>"


definition costRequest :: request where
  "costRequest = demoRequest\<lparr>q_sort_by := Some ''monthly_cost_usd'', q_sort_order := Some ''DESC''\<rparr>"

definition nameRequest :: request where
  "nameRequest = demoRequest\<lparr>q_sort_by := Some ''name'', q_sort_order := Some ''ASC''\<rparr>"

section \<open>Properties of the merge\<close>













text \<open>
  C10. For two arrays the merge returns an array as long as \<open>dbCities\<close>, in the same
  order, and each output record differs from its input record in \<open>predicted_score\<close>
  and \<open>ml_enhanced\<close> at most: no record is dropped, duplicated or reordered.
\<close>

theorem mergeCityData_frame:
  "\<exists>out. mergeCityData (Arr dbCities) (Arr mlCities) = Arr out
     \<and> length out = length dbCities
     \<and> (\<forall>i < length dbCities.
          (out ! i)\<lparr>predicted_score := predicted_score (dbCities ! i),
                    ml_enhanced := ml_enhanced (dbCities ! i)\<rparr> = dbCities ! i)"
  by (simp add: mergeOne_def split: option.split)

theorem mergeCityData_frame_witness:
  "\<exists>out. mergeCityData (Arr [bangkok, lisbon]) (Arr [prediction ''lisbon'' ''PORTUGAL'' 0.72]) = Arr out
     \<and> length out = 2
     \<and> (out ! 0)\<lparr>predicted_score := None, ml_enhanced := None\<rparr> = bangkok
     \<and> (out ! 1)\<lparr>predicted_score := None, ml_enhanced := None\<rparr> = lisbon"
proof -
  obtain out where o: "mergeCityData (Arr [bangkok, lisbon]) (Arr [prediction ''lisbon'' ''PORTUGAL'' 0.72]) = Arr out"
    "length out = length [bangkok, lisbon]"
    "\<forall>i < length [bangkok, lisbon].
          (out ! i)\<lparr>predicted_score := predicted_score ([bangkok, lisbon] ! i),
                    ml_enhanced := ml_enhanced ([bangkok, lisbon] ! i)\<rparr> = [bangkok, lisbon] ! i"
    using mergeCityData_frame [of "[bangkok, lisbon]" "[prediction ''lisbon'' ''PORTUGAL'' 0.72]"]
    by blast
  from o(3) [rule_format, of 0]
  have "(out ! 0)\<lparr>predicted_score := predicted_score bangkok, ml_enhanced := ml_enhanced bangkok\<rparr> = bangkok"
    by simp
  moreover from o(3) [rule_format, of 1]
  have "(out ! 1)\<lparr>predicted_score := predicted_score lisbon, ml_enhanced := ml_enhanced lisbon\<rparr> = lisbon"
    by simp
  ultimately show ?thesis using o(1,2) by (simp add: lisbon_def bangkok_def)
qed




section \<open>Properties of the pagination\<close>

lemmas parse_simps =
  parseIntString_def isWhiteSpace_def radixDigit_def digitValue_def digitsToNat_def


lemma pageNumOf_QNum: "pageNumOf (QNum n) = (if n = 0 then 1 else n)"
  by (simp add: pageNumOf_def defaultTo_def orElse_def)

lemma limitNumOf_QNum: "limitNumOf (QNum n) = (if n = 0 then 10 else n)"
  by (simp add: limitNumOf_def defaultTo_def orElse_def)

lemma paginateResults_eq:
  "paginateResults page limit =
     \<lparr>w_offset = Some ((pageNumOf page - 1) * limitNumOf limit), w_limit = limitNumOf limit\<rparr>"
  by (simp add: paginateResults_def Let_def)








section \<open>Properties of the sort validation\<close>






section \<open>Properties of the routes\<close>









lemmas demo_simps =
  demoPlatform_def demoDb_def demoRows_def demoPython_def downPython_def timeoutPython_def
  demoRequest_def demoPersonalized_def demoBody_def

lemmas where_simps =
  listWhere_def filterWhere_def textFilter_def numberFilter_def truthy_def whereOrAnd_def


lemmas page_simps =
  filterPageNum_def filterLimitNum_def listPageNum_def listLimitNum_def personalizedLimitNum_def
  personalizedPageNum_def defaultTo_def orElse_def parse_simps paginateResults_eq
  pageNumOf_QNum limitNumOf_QNum listWindow_def
















lemma demo_select:
  assumes "req = demoRequest \<or> req = nameRequest \<or> req = costRequest"
  shows "listSelect (parseFloat demoPlatform) req 20 20 =
           \<lparr>sq_where = [], sq_order_field = ''name'', sq_order_dir = ''ASC'',
            sq_params = [PInt 20, PInt 20]\<rparr>"
  using assms
  by (auto simp: listSelect_def Let_def where_simps demo_simps nameRequest_def costRequest_def)










lemma personalizedLimitNum_le: "personalizedLimitNum req \<le> 200"
  by (simp add: personalizedLimitNum_def)

lemma personalizedPageNum_ge: "1 \<le> personalizedPageNum req"
  by (simp add: personalizedPageNum_def)





section \<open>The order of the page\<close>







text \<open>
  With \<open>sort_by=monthly_cost_usd\<close>, \<open>sort_order=DESC\<close> and no filter parameter the
  record store is asked for \<open>ORDER BY name ASC\<close>, the statement of that branch having
  the order written out, and the page goes out in that order.
\<close>

lemma unfiltered_sort:
  "q_sort_by costRequest = Some ''monthly_cost_usd'' \<and> q_sort_order costRequest = Some ''DESC''
   \<and> listSelect (parseFloat demoPlatform) costRequest 20 20 =
       \<lparr>sq_where = [], sq_order_field = ''name'', sq_order_dir = ''ASC'',
        sq_params = [PInt 20, PInt 20]\<rparr>"
  by (simp add: demo_select) (simp add: costRequest_def)



lemma scoreOrZero_is_saved: "scoreOrZero (c\<lparr>is_saved := b\<rparr>) = scoreOrZero c"
  by (simp add: scoreOrZero_def)






section \<open>The personalized listing\<close>

lemma personalizedCities_SuccessD:
  assumes "personalizedCities pf db py req = Success body msg"
  shows "\<exists>userPreferences mlResult.
           getPersonalizedCities py userPreferences (personalizedLimitNum req)
             (personalizedPageNum req) = Inr mlResult
         \<and> p_pagination body =
             \<lparr>current_page = pr_current_page mlResult, total_pages = pr_total_pages mlResult,
              total_items = pr_total mlResult, items_per_page = pr_limit mlResult,
              has_next_page = pr_has_next_page mlResult,
              has_prev_page = pr_has_prev_page mlResult\<rparr>"
  using assms
  by (auto simp: personalizedCities_def split: option.splits sum.splits list.splits if_splits)
    blast

lemma getPersonalizedCities_InrD:
  assumes "getPersonalizedCities py prefs (personalizedLimitNum req) (personalizedPageNum req)
             = Inr mlResult"
  shows "\<exists>mlBody.
           cities_personalized py prefs (personalizedLimitNum req) (personalizedPageNum req)
             = Inr mlBody
         \<and> pr_total mlResult = pb_total mlBody \<and> pr_limit mlResult = pb_limit mlBody
         \<and> pr_current_page mlResult = mp_current_page (paginationOrEmpty (pb_pagination mlBody))
         \<and> pr_total_pages mlResult = mp_total_pages (paginationOrEmpty (pb_pagination mlBody))
         \<and> pr_has_next_page mlResult = mp_has_next_page (paginationOrEmpty (pb_pagination mlBody))
         \<and> pr_has_prev_page mlResult = mp_has_prev_page (paginationOrEmpty (pb_pagination mlBody))"
proof -
  have lim: "min (personalizedLimitNum req) 200 = personalizedLimitNum req"
    "max (personalizedPageNum req) 1 = personalizedPageNum req"
    using personalizedLimitNum_le [of req] personalizedPageNum_ge [of req] by simp_all
  from assms show ?thesis
    by (auto simp: getPersonalizedCities_def Let_def lim split: sum.splits)
qed

lemma paginationOrEmpty_Some: "paginationOrEmpty (Some block) = block"
  by (simp add: paginationOrEmpty_def)

text \<open>
  C7. In every successful answer of \<open>GET /personalized\<close> the pagination block is the one
  of the prediction service's answer for the resolved limit and page:
  \<open>current_page\<close>, \<open>total_pages\<close>, \<open>has_next_page\<close> and \<open>has_prev_page\<close>
  are the values of its \<open>pagination\<close> object, \<open>total_items\<close> and
  \<open>items_per_page\<close> its \<open>total\<close> and \<open>limit\<close>, none of them recomputed.
\<close>

theorem personalized_pagination:
  assumes ok: "personalizedCities pf db py req = Success body msg"
  shows "\<exists>userPreferences mlBody.
           cities_personalized py userPreferences (personalizedLimitNum req)
             (personalizedPageNum req) = Inr mlBody
         \<and> current_page (p_pagination body) = mp_current_page (paginationOrEmpty (pb_pagination mlBody))
         \<and> total_pages (p_pagination body) = mp_total_pages (paginationOrEmpty (pb_pagination mlBody))
         \<and> total_items (p_pagination body) = pb_total mlBody
         \<and> items_per_page (p_pagination body) = pb_limit mlBody
         \<and> has_next_page (p_pagination body) = mp_has_next_page (paginationOrEmpty (pb_pagination mlBody))
         \<and> has_prev_page (p_pagination body) = mp_has_prev_page (paginationOrEmpty (pb_pagination mlBody))
         \<and> (\<forall>block. pb_pagination mlBody = Some block \<longrightarrow>
               current_page (p_pagination body) = mp_current_page block
             \<and> total_pages (p_pagination body) = mp_total_pages block
             \<and> has_next_page (p_pagination body) = mp_has_next_page block
             \<and> has_prev_page (p_pagination body) = mp_has_prev_page block)"
proof -
  from personalizedCities_SuccessD [OF ok] obtain userPreferences mlResult where
    g: "getPersonalizedCities py userPreferences (personalizedLimitNum req)
             (personalizedPageNum req) = Inr mlResult"
    and b: "p_pagination body =
             \<lparr>current_page = pr_current_page mlResult, total_pages = pr_total_pages mlResult,
              total_items = pr_total mlResult, items_per_page = pr_limit mlResult,
              has_next_page = pr_has_next_page mlResult,
              has_prev_page = pr_has_prev_page mlResult\<rparr>"
    by blast
  from getPersonalizedCities_InrD [OF g] obtain mlBody where
    c: "cities_personalized py userPreferences (personalizedLimitNum req) (personalizedPageNum req)
             = Inr mlBody"
    and r: "pr_total mlResult = pb_total mlBody" "pr_limit mlResult = pb_limit mlBody"
      "pr_current_page mlResult = mp_current_page (paginationOrEmpty (pb_pagination mlBody))"
      "pr_total_pages mlResult = mp_total_pages (paginationOrEmpty (pb_pagination mlBody))"
      "pr_has_next_page mlResult = mp_has_next_page (paginationOrEmpty (pb_pagination mlBody))"
      "pr_has_prev_page mlResult = mp_has_prev_page (paginationOrEmpty (pb_pagination mlBody))"
    by blast
  have "current_page (p_pagination body) = mp_current_page (paginationOrEmpty (pb_pagination mlBody))"
    "total_pages (p_pagination body) = mp_total_pages (paginationOrEmpty (pb_pagination mlBody))"
    "total_items (p_pagination body) = pb_total mlBody"
    "items_per_page (p_pagination body) = pb_limit mlBody"
    "has_next_page (p_pagination body) = mp_has_next_page (paginationOrEmpty (pb_pagination mlBody))"
    "has_prev_page (p_pagination body) = mp_has_prev_page (paginationOrEmpty (pb_pagination mlBody))"
    by (simp_all add: b r)
  with c show ?thesis
    by (intro exI [of _ userPreferences] exI [of _ mlBody]) (simp add: paginationOrEmpty_Some)
qed

lemma demo_personalized:
  "personalizedCities demoPlatform demoDb demoPython demoPersonalized =
     Success
       \<lparr>p_cities = [lisbon\<lparr>predicted_score := Some 0.72, is_saved := Some True\<rparr>],
        p_pagination =
          \<lparr>current_page = Some (JNumber 2), total_pages = Some (JNumber 5),
           total_items = Some (JNumber 81), items_per_page = Some (JNumber 20),
           has_next_page = Some (JBoolean True), has_prev_page = Some (JBoolean True)\<rparr>,
        p_user_preferences = None\<rparr>
       ''Personalized city recommendations retrieved successfully''"
  by (simp add: personalizedCities_def bearerToken_def truthy_def getPersonalizedCities_def
      paginationOrEmpty_def page_simps demo_simps lisbon_def)

text \<open>The block with \<open>current_page = 2\<close> and \<open>total_pages = 5\<close> comes out as it went in.\<close>

theorem personalized_pagination_witness:
  "personalizedCities demoPlatform demoDb demoPython demoPersonalized =
     Success
       \<lparr>p_cities = [lisbon\<lparr>predicted_score := Some 0.72, is_saved := Some True\<rparr>],
        p_pagination =
          \<lparr>current_page = Some (JNumber 2), total_pages = Some (JNumber 5),
           total_items = Some (JNumber 81), items_per_page = Some (JNumber 20),
           has_next_page = Some (JBoolean True), has_prev_page = Some (JBoolean True)\<rparr>,
        p_user_preferences = None\<rparr>
       ''Personalized city recommendations retrieved successfully''
   \<and> pb_pagination demoBody =
       Some \<lparr>mp_offset = Some (JNumber 20), mp_current_page = Some (JNumber 2),
              mp_total_pages = Some (JNumber 5), mp_has_next_page = Some (JBoolean True),
              mp_has_prev_page = Some (JBoolean True)\<rparr>
   \<and> pb_total demoBody = Some (JNumber 81) \<and> pb_limit demoBody = Some (JNumber 20)"
proof -
  let ?block = "\<lparr>mp_offset = Some (JNumber 20), mp_current_page = Some (JNumber 2),
              mp_total_pages = Some (JNumber 5), mp_has_next_page = Some (JBoolean True),
              mp_has_prev_page = Some (JBoolean True)\<rparr>"
  have block: "pb_pagination demoBody = Some ?block"
    by (simp add: demoBody_def)
  from personalized_pagination [OF demo_personalized] obtain userPreferences mlBody where
    call: "cities_personalized demoPython userPreferences (personalizedLimitNum demoPersonalized)
       (personalizedPageNum demoPersonalized) = Inr mlBody"
    and total: "Some (JNumber 81) = pb_total mlBody" "Some (JNumber 20) = pb_limit mlBody"
    and same: "\<forall>b. pb_pagination mlBody = Some b \<longrightarrow>
        Some (JNumber 2) = mp_current_page b \<and> Some (JNumber 5) = mp_total_pages b
        \<and> Some (JBoolean True) = mp_has_next_page b \<and> Some (JBoolean True) = mp_has_prev_page b"
    by auto
  from call have body: "mlBody = demoBody" by (simp add: demoPython_def)
  from same block body have "Some (JNumber 2) = mp_current_page ?block" by blast
  with total body block demo_personalized show ?thesis by simp
qed

end
